theory Spec2Isabelle
  imports Complex_Main
begin

section \<open>Data model\<close>

text \<open>
  A shallow embedding of the retrieval-augmented question answering system:
  \<^verbatim>\<open>Chunking/chunking_strategy.py\<close>, \<^verbatim>\<open>Processing/document_processor.py\<close>,
  \<^verbatim>\<open>Storage/vector_store.py\<close>, \<^verbatim>\<open>Pipeline/rag_pipeline.py\<close>, \<^verbatim>\<open>main.py\<close> and the
  query endpoint of \<^verbatim>\<open>api.py\<close>.

  Conventions.
  \<^item> A Python exception is a value of type \<open>exn\<close>; a function that can raise returns
    \<open>exn + 'a\<close> with \<open>Inl\<close> the exception.
  \<^item> A method that mutates \<open>self\<close> takes the object's state and returns the new state
    next to its result, also when it raises.
  \<^item> The libraries the repository calls (Docling's converter and chunker, the Chroma
    vector store, the Groq language model, the file system) are not part of the
    repository: they are the fields of the record \<open>env\<close>, and every theorem holds for
    every behaviour of them unless it states an assumption.
  \<^item> Python's \<open>str\<close> is \<open>string\<close>, one list element per character; Python's \<open>float\<close>
    is idealised as \<open>real\<close> (rounding is not modelled).
  \<^item> \<open>print\<close> writes to the console only and is left out; the one expression inside a
    \<open>print\<close> that can raise (\<open>file_path.stat()\<close>) is kept.
  \<^item> Constructing the library objects that hold no data of the model (the document
    converter, the embedding function, the chat model, the prompt) and creating the
    configured directories are taken to succeed.
\<close>

type_synonym path = string

datatype exn =
    AttributeError string
  | ValueError string
  | ExternalError string

text \<open>\<open>str(e)\<close>: the message of an exception.\<close>

fun exn_str :: "exn \<Rightarrow> string" where
  "exn_str (AttributeError m) = m"
| "exn_str (ValueError m) = m"
| "exn_str (ExternalError m) = m"

text \<open>
  Metadata values: a chunk's metadata is a dictionary with the keys \<open>doc_items\<close>,
  \<open>headings\<close> and \<open>origin\<close>; the values are lists, dictionaries of strings or \<open>None\<close>.
  A dictionary is an association list in insertion order.
\<close>

datatype meta_value =
    MNone
  | MList "string list"
  | MDict "(string \<times> string) list"

type_synonym metadata = "(string \<times> meta_value) list"

text \<open>LangChain's \<open>Document(page_content, metadata)\<close>.\<close>

record document =
  page_content :: string
  metadata :: metadata

text \<open>
  A chunk as Docling's chunker yields it: \<open>chunk.text\<close> and \<open>chunk.meta\<close>. Each attribute
  of \<open>meta\<close> that the code reads behind \<open>hasattr\<close> is optional: \<open>None\<close> here means that
  the attribute is absent. Where present, \<open>meta.origin\<close> may itself be Python's \<open>None\<close>
  (the inner option).
\<close>

record doc_meta =
  meta_doc_items :: "meta_value option"
  meta_headings :: "meta_value option"
  meta_origin :: "(string \<times> string) list option option"

record doc_chunk =
  chunk_text :: string
  meta :: doc_meta

text \<open>The dictionary \<open>{"text": ..., "metadata": {...}}\<close> built by \<open>chunk_document\<close>.\<close>

record chunk_data =
  cd_text :: string
  cd_metadata :: metadata

text \<open>The class \<open>Config\<close>, read from the process environment.\<close>

record Config =
  GROQ_API_KEY :: string
  EMBEDDING_MODEL :: string
  LLM_MODEL :: string
  VECTOR_DB_PATH :: string
  COLLECTION_NAME :: string
  CHUNK_SIZE :: int
  CHUNK_OVERLAP :: int

text \<open>
  The world outside the repository. \<open>'d\<close> is Docling's document type, \<open>'h\<close> the state of
  a Chroma vector store object.
  \<^item> \<open>docs_exists\<close>, \<open>glob\<close>: \<open>Path("docs").exists()\<close> and \<open>Path("docs").glob(pattern)\<close>;
  \<^item> \<open>stat_size\<close>: \<open>file_path.stat().st_size\<close>;
  \<^item> \<open>convert\<close>: \<open>DocumentConverter.convert(file_path).document\<close>;
  \<^item> \<open>HierarchicalChunker\<close>: the chunker built from a tokenizer name, \<open>max_tokens\<close> and
    \<open>include_metadata\<close>, applied to a document;
  \<^item> \<open>filter_complex_metadata\<close>: LangChain's function of that name;
  \<^item> \<open>Chroma\<close>: the constructor, from the persist directory, the embedding model and the
    collection name; \<open>Chroma_from_documents\<close>: the class method, with the documents first;
  \<^item> \<open>Chroma_add_documents\<close>: the method, returning the object's new state;
  \<^item> \<open>Chroma_bool\<close>: the truth value of a Chroma object in \<open>if not self.vectorstore\<close>;
  \<^item> \<open>similarity_search_with_relevance_scores\<close>: the method, with the query and \<open>k\<close>;
  \<^item> \<open>retriever_invoke\<close>: what \<open>as_retriever(search_kwargs={"k": k})\<close> returns for a
    query;
  \<^item> \<open>llm_invoke\<close>: \<open>ChatGroq(model_name, temperature)\<close> followed by \<open>StrOutputParser\<close>,
    applied to the prompt.
\<close>

record ('d, 'h) env =
  config :: Config
  docs_exists :: bool
  glob :: "string \<Rightarrow> path list"
  stat_size :: "path \<Rightarrow> exn + nat"
  convert :: "path \<Rightarrow> exn + 'd"
  HierarchicalChunker :: "string \<Rightarrow> int \<Rightarrow> bool \<Rightarrow> 'd \<Rightarrow> exn + doc_chunk list"
  filter_complex_metadata :: "document list \<Rightarrow> document list"
  Chroma :: "string \<Rightarrow> string \<Rightarrow> string \<Rightarrow> exn + 'h"
  Chroma_from_documents :: "document list \<Rightarrow> string \<Rightarrow> string \<Rightarrow> string \<Rightarrow> exn + 'h"
  Chroma_add_documents :: "'h \<Rightarrow> document list \<Rightarrow> exn + 'h"
  Chroma_bool :: "'h \<Rightarrow> bool"
  similarity_search_with_relevance_scores :: "'h \<Rightarrow> string \<Rightarrow> nat \<Rightarrow> exn + (document \<times> real) list"
  retriever_invoke :: "'h \<Rightarrow> nat \<Rightarrow> string \<Rightarrow> exn + document list"
  llm_invoke :: "string \<Rightarrow> real \<Rightarrow> string \<Rightarrow> exn + string"

section \<open>Storage: the class VectorStore\<close>

record 'h VectorStore =
  embedding_model :: string
  persist_directory :: string
  collection_name :: string
  vectorstore :: "'h option"

definition VectorStore_init :: "string \<Rightarrow> string \<Rightarrow> string \<Rightarrow> 'h VectorStore" where
  "VectorStore_init em pd cn =
     \<lparr>embedding_model = em, persist_directory = pd, collection_name = cn, vectorstore = None\<rparr>"

text \<open>The loop \<open>for chunk in chunks: documents.append(Document(...))\<close>.\<close>

fun to_documents :: "chunk_data list \<Rightarrow> document list \<Rightarrow> document list" where
  "to_documents [] documents = documents"
| "to_documents (chunk # chunks) documents =
     to_documents chunks
       (documents @ [\<lparr>page_content = cd_text chunk, metadata = cd_metadata chunk\<rparr>])"

definition create_vectorstore ::
  "('d, 'h) env \<Rightarrow> 'h VectorStore \<Rightarrow> chunk_data list \<Rightarrow> 'h VectorStore \<times> (exn + 'h)" where
  "create_vectorstore E self chunks =
     (let documents = filter_complex_metadata E (to_documents chunks [])
      in case Chroma_from_documents E documents (embedding_model self)
                (persist_directory self) (collection_name self) of
           Inl e \<Rightarrow> (self, Inl e)
         | Inr h \<Rightarrow> (self\<lparr>vectorstore := Some h\<rparr>, Inr h))"

definition load_vectorstore ::
  "('d, 'h) env \<Rightarrow> 'h VectorStore \<Rightarrow> 'h VectorStore \<times> (exn + 'h)" where
  "load_vectorstore E self =
     (case Chroma E (persist_directory self) (embedding_model self) (collection_name self) of
        Inl e \<Rightarrow> (self, Inl e)
      | Inr h \<Rightarrow> (self\<lparr>vectorstore := Some h\<rparr>, Inr h))"

text \<open>
  \<open>if not self.vectorstore: self.load_vectorstore()\<close>, the common start of
  \<open>add_documents\<close>, \<open>similarity_search\<close> and \<open>as_retriever\<close>. The test is true when
  the attribute is \<open>None\<close> and when the Chroma object it holds is false as a truth value.
  On success the handle that \<open>self.vectorstore\<close> then holds is returned.
\<close>

definition ensure_loaded ::
  "('d, 'h) env \<Rightarrow> 'h VectorStore \<Rightarrow> 'h VectorStore \<times> (exn + 'h)" where
  "ensure_loaded E self =
     (case vectorstore self of
        None \<Rightarrow> load_vectorstore E self
      | Some h \<Rightarrow> if Chroma_bool E h then (self, Inr h) else load_vectorstore E self)"

definition add_documents ::
  "('d, 'h) env \<Rightarrow> 'h VectorStore \<Rightarrow> chunk_data list \<Rightarrow> 'h VectorStore \<times> (exn + unit)" where
  "add_documents E self chunks =
     (case ensure_loaded E self of
        (self1, Inl e) \<Rightarrow> (self1, Inl e)
      | (self1, Inr h) \<Rightarrow>
          (let documents = filter_complex_metadata E (to_documents chunks [])
           in case Chroma_add_documents E h documents of
                Inl e \<Rightarrow> (self1, Inl e)
              | Inr h' \<Rightarrow> (self1\<lparr>vectorstore := Some h'\<rparr>, Inr ())))"

text \<open>\<open>as_retriever(k)\<close>: the retriever is the handle together with \<open>k\<close>.\<close>

definition as_retriever ::
  "('d, 'h) env \<Rightarrow> 'h VectorStore \<Rightarrow> nat \<Rightarrow> 'h VectorStore \<times> (exn + 'h \<times> nat)" where
  "as_retriever E self k =
     (case ensure_loaded E self of
        (self1, Inl e) \<Rightarrow> (self1, Inl e)
      | (self1, Inr h) \<Rightarrow> (self1, Inr (h, k)))"

section \<open>Chunking: the class ChunkingStrategy\<close>

text \<open>
  The object holds the chunker only. The constructor takes \<open>chunk_size\<close> and
  \<open>chunk_overlap\<close> and passes the tokenizer name, \<open>max_tokens = chunk_size\<close> and
  \<open>include_metadata = True\<close> to \<open>HierarchicalChunker\<close>.
\<close>

record 'd ChunkingStrategy =
  chunker :: "'d \<Rightarrow> exn + doc_chunk list"

definition ChunkingStrategy_init :: "('d, 'h) env \<Rightarrow> int \<Rightarrow> int \<Rightarrow> 'd ChunkingStrategy" where
  "ChunkingStrategy_init E chunk_size chunk_overlap =
     \<lparr>chunker = HierarchicalChunker E ''sentence-transformers/all-MiniLM-L6-v2'' chunk_size True\<rparr>"

text \<open>
  The dictionary built for one chunk. \<open>hasattr\<close> guards each attribute; where
  \<open>meta.origin\<close> is present and is \<open>None\<close>, \<open>chunk.meta.origin.model_dump()\<close> raises
  \<open>AttributeError\<close>.
\<close>

definition make_chunk_data :: "doc_chunk \<Rightarrow> exn + chunk_data" where
  "make_chunk_data chunk =
     (let doc_items = (case meta_doc_items (meta chunk) of Some v \<Rightarrow> v | None \<Rightarrow> MList []);
          headings = (case meta_headings (meta chunk) of Some v \<Rightarrow> v | None \<Rightarrow> MList [])
      in case meta_origin (meta chunk) of
           Some None \<Rightarrow> Inl (AttributeError ''NoneType object has no attribute model_dump'')
         | Some (Some origin) \<Rightarrow>
             Inr \<lparr>cd_text = chunk_text chunk,
                  cd_metadata = [(''doc_items'', doc_items), (''headings'', headings),
                                 (''origin'', MDict origin)]\<rparr>
         | None \<Rightarrow>
             Inr \<lparr>cd_text = chunk_text chunk,
                  cd_metadata = [(''doc_items'', doc_items), (''headings'', headings),
                                 (''origin'', MDict [])]\<rparr>)"

text \<open>The loop of \<open>chunk_document\<close> over the chunker's output, appending to \<open>chunks\<close>.\<close>

fun chunk_loop :: "doc_chunk list \<Rightarrow> chunk_data list \<Rightarrow> exn + chunk_data list" where
  "chunk_loop [] chunks = Inr chunks"
| "chunk_loop (chunk # rest) chunks =
     (case make_chunk_data chunk of
        Inl e \<Rightarrow> Inl e
      | Inr chunk_data \<Rightarrow> chunk_loop rest (chunks @ [chunk_data]))"

text \<open>
  \<open>chunk_document\<close>. After the loop the code only prints statistics; the average length
  is \<open>sum(...) / len(chunks) if chunks else 0\<close>, so an empty list raises nothing.
\<close>

definition chunk_document :: "'d ChunkingStrategy \<Rightarrow> 'd \<Rightarrow> exn + chunk_data list" where
  "chunk_document self document =
     (case chunker self document of
        Inl e \<Rightarrow> Inl e
      | Inr produced \<Rightarrow> chunk_loop produced [])"

fun chunk_documents_loop ::
  "'d ChunkingStrategy \<Rightarrow> 'd list \<Rightarrow> chunk_data list \<Rightarrow> exn + chunk_data list" where
  "chunk_documents_loop self [] all_chunks = Inr all_chunks"
| "chunk_documents_loop self (doc # documents) all_chunks =
     (case chunk_document self doc of
        Inl e \<Rightarrow> Inl e
      | Inr chunks \<Rightarrow> chunk_documents_loop self documents (all_chunks @ chunks))"

definition chunk_documents :: "'d ChunkingStrategy \<Rightarrow> 'd list \<Rightarrow> exn + chunk_data list" where
  "chunk_documents self documents = chunk_documents_loop self documents []"

section \<open>Processing: the class DocumentProcessor\<close>

text \<open>
  \<open>process_document\<close> reads the file's size for a \<open>print\<close> and converts the file; either
  can raise. \<open>process_documents\<close> is a plain loop with no exception handler.
\<close>

definition process_document :: "('d, 'h) env \<Rightarrow> path \<Rightarrow> exn + 'd" where
  "process_document E file_path =
     (case stat_size E file_path of
        Inl e \<Rightarrow> Inl e
      | Inr st_size \<Rightarrow> convert E file_path)"

fun process_documents_loop :: "('d, 'h) env \<Rightarrow> path list \<Rightarrow> 'd list \<Rightarrow> exn + 'd list" where
  "process_documents_loop E [] documents = Inr documents"
| "process_documents_loop E (file_path # file_paths) documents =
     (case process_document E file_path of
        Inl e \<Rightarrow> Inl e
      | Inr doc \<Rightarrow> process_documents_loop E file_paths (documents @ [doc]))"

definition process_documents :: "('d, 'h) env \<Rightarrow> path list \<Rightarrow> exn + 'd list" where
  "process_documents E file_paths = process_documents_loop E file_paths []"

section \<open>Pipeline: the class RAGPipeline\<close>

record source_info =
  source_number :: nat
  preview :: string
  source_metadata :: metadata
  relevance_score :: real

record metrics =
  retrieved_chunks :: nat
  average_relevance :: real
  answer_length :: nat

text \<open>
  The dictionary \<open>query\<close> returns; the endpoint's \<open>QueryResponse\<close> has the same four
  fields. \<open>preview\<close> is the key \<open>"text"\<close> of a source.
\<close>

record QueryResponse =
  question :: string
  answer :: string
  sources :: "source_info list"
  metrics :: metrics

text \<open>
  The pipeline object: the retriever (bound at construction to the vector store's handle
  and \<open>k = 10\<close>), the model name and the temperature. Its reference to the
  \<open>VectorStore\<close> object is the argument \<open>vector_store\<close> of \<open>query\<close>.
\<close>

record 'h RAGPipeline =
  retriever :: "'h \<times> nat"
  model_name :: string
  temperature :: real

definition RAGPipeline_init ::
  "('d, 'h) env \<Rightarrow> string \<Rightarrow> 'h VectorStore \<Rightarrow> string \<Rightarrow> real \<Rightarrow>
     'h VectorStore \<times> (exn + 'h RAGPipeline)" where
  "RAGPipeline_init E groq_api_key vector_store mn temp =
     (case as_retriever E vector_store 10 of
        (vs, Inl e) \<Rightarrow> (vs, Inl e)
      | (vs, Inr r) \<Rightarrow> (vs, Inr \<lparr>retriever = r, model_name = mn, temperature = temp\<rparr>))"

text \<open>Python's \<open>sep.join(parts)\<close>.\<close>

fun str_join :: "string \<Rightarrow> string list \<Rightarrow> string" where
  "str_join sep [] = []"
| "str_join sep [x] = x"
| "str_join sep (x # y # ys) = x @ sep @ str_join sep (y # ys)"

definition format_docs :: "document list \<Rightarrow> string" where
  "format_docs docs = str_join ''\<newline>\<newline>'' (map page_content docs)"

text \<open>The prompt template with \<open>{context}\<close> and \<open>{question}\<close> filled in.\<close>

definition prompt_format :: "string \<Rightarrow> string \<Rightarrow> string" where
  "prompt_format context_text question_text =
     ''You are an AI assistant that answers questions based on the provided context.''
     @ ''\<newline>\<newline>''
     @ ''Use the following pieces of context to answer the question at the end. ''
     @ ''The context comes from various documents including PDFs, Word documents, ''
     @ ''images, and other files.''
     @ ''\<newline>\<newline>''
     @ ''If you can find relevant information in the context, provide a comprehensive ''
     @ ''answer. If you cannot find the answer in the context, say ''
     @ [CHR 0x22]
     @ ''I don't have enough information in the provided documents to answer this question.''
     @ [CHR 0x22]
     @ ''\<newline>\<newline>Context:\<newline>'' @ context_text
     @ ''\<newline>\<newline>Question: '' @ question_text
     @ ''\<newline>\<newline>Answer:''"

text \<open>
  \<open>self.rag_chain.invoke(question)\<close>: retrieve, format the documents into the context,
  fill the prompt, call the model, parse the output to a string.
\<close>

definition rag_chain_invoke :: "('d, 'h) env \<Rightarrow> 'h RAGPipeline \<Rightarrow> string \<Rightarrow> exn + string" where
  "rag_chain_invoke E self q =
     (case retriever_invoke E (fst (retriever self)) (snd (retriever self)) q of
        Inl e \<Rightarrow> Inl e
      | Inr docs \<Rightarrow>
          llm_invoke E (model_name self) (temperature self) (prompt_format (format_docs docs) q))"

text \<open>Python's \<open>sum\<close> over a list of numbers: a left fold from \<open>0\<close>.\<close>

definition py_sum :: "real list \<Rightarrow> real" where
  "py_sum xs = foldl (+) 0 xs"

text \<open>
  The loop \<open>for i, (doc, score) in enumerate(source_docs_with_scores, 1)\<close>, appending a
  source to \<open>response["sources"]\<close>.
\<close>

fun add_sources :: "nat \<Rightarrow> (document \<times> real) list \<Rightarrow> QueryResponse \<Rightarrow> QueryResponse" where
  "add_sources i [] response = response"
| "add_sources i ((doc, score) # rest) response =
     add_sources (i + 1) rest
       (response\<lparr>sources := sources response @
          [\<lparr>source_number = i,
            preview = (if length (page_content doc) > 300
                       then take 300 (page_content doc) @ ''...''
                       else page_content doc),
            source_metadata = metadata doc,
            relevance_score = score\<rparr>]\<rparr>)"

definition query ::
  "('d, 'h) env \<Rightarrow> 'h VectorStore \<Rightarrow> 'h RAGPipeline \<Rightarrow> string \<Rightarrow> exn + QueryResponse" where
  "query E vector_store self q =
     (case vectorstore vector_store of
        None \<Rightarrow>
          Inl (AttributeError
            ''NoneType object has no attribute similarity_search_with_relevance_scores'')
      | Some h \<Rightarrow>
          (case similarity_search_with_relevance_scores E h q 10 of
             Inl e \<Rightarrow> Inl e
           | Inr source_docs_with_scores \<Rightarrow>
               (let source_docs = map fst source_docs_with_scores;
                    similarity_scores = map snd source_docs_with_scores;
                    avg_relevance =
                      (if similarity_scores \<noteq> []
                       then py_sum similarity_scores / real (length similarity_scores)
                       else 0)
                in case rag_chain_invoke E self q of
                     Inl e \<Rightarrow> Inl e
                   | Inr ans \<Rightarrow>
                       Inr (add_sources 1 source_docs_with_scores
                              \<lparr>question = q, answer = ans, sources = [],
                               metrics = \<lparr>retrieved_chunks = length source_docs,
                                          average_relevance = avg_relevance,
                                          answer_length = length ans\<rparr>\<rparr>))))"

section \<open>The orchestrator: the class DoclingRAGSystem\<close>

text \<open>
  The object's mutable parts: the chunking strategy, the vector store and the lazily
  built pipeline (\<open>None\<close> until \<open>initialize_rag\<close>). The configuration and the document
  converter are in \<open>env\<close>.
\<close>

record ('d, 'h) DoclingRAGSystem =
  chunking_strategy :: "'d ChunkingStrategy"
  vector_store :: "'h VectorStore"
  rag_pipeline :: "'h RAGPipeline option"

definition Config_validate :: "('d, 'h) env \<Rightarrow> exn + unit" where
  "Config_validate E =
     (if GROQ_API_KEY (config E) = []
      then Inl (ValueError ''GROQ_API_KEY is required. Please set it in .env file'')
      else Inr ())"

definition DoclingRAGSystem_init :: "('d, 'h) env \<Rightarrow> exn + ('d, 'h) DoclingRAGSystem" where
  "DoclingRAGSystem_init E =
     (case Config_validate E of
        Inl e \<Rightarrow> Inl e
      | Inr u \<Rightarrow>
          Inr \<lparr>chunking_strategy =
                 ChunkingStrategy_init E (CHUNK_SIZE (config E)) (CHUNK_OVERLAP (config E)),
               vector_store =
                 VectorStore_init (EMBEDDING_MODEL (config E)) (VECTOR_DB_PATH (config E))
                   (COLLECTION_NAME (config E)),
               rag_pipeline = None\<rparr>)"

definition supported_extensions :: "string list" where
  "supported_extensions =
     [''.pdf'', ''.docx'', ''.xlsx'', ''.pptx'', ''.ppt'',
      ''.md'', ''.html'', ''.htm'', ''.csv'',
      ''.png'', ''.jpg'', ''.jpeg'', ''.tiff'', ''.tif'', ''.bmp'', ''.webp'']"

text \<open>The discovery loop: \<open>file_paths.extend(docs_folder.glob(f"*{ext}"))\<close> per extension.\<close>

fun discover :: "('d, 'h) env \<Rightarrow> string list \<Rightarrow> path list \<Rightarrow> path list" where
  "discover E [] file_paths = file_paths"
| "discover E (ext # exts) file_paths = discover E exts (file_paths @ glob E (''*'' @ ext))"

text \<open>
  The last statement of \<open>ingest_documents\<close>: \<open>try\<close> load and add, and on any exception
  (a bare \<open>except\<close>) create the vector store from the chunks.
\<close>

definition store_chunks ::
  "('d, 'h) env \<Rightarrow> 'h VectorStore \<Rightarrow> chunk_data list \<Rightarrow> 'h VectorStore \<times> (exn + unit)" where
  "store_chunks E vs chunks =
     (let fallback = (\<lambda>vs'. case create_vectorstore E vs' chunks of
                               (vs'', Inl e) \<Rightarrow> (vs'', Inl e)
                             | (vs'', Inr h) \<Rightarrow> (vs'', Inr ()))
      in case load_vectorstore E vs of
           (vs1, Inl e) \<Rightarrow> fallback vs1
         | (vs1, Inr h) \<Rightarrow>
             (case add_documents E vs1 chunks of
                (vs2, Inl e) \<Rightarrow> fallback vs2
              | (vs2, Inr u) \<Rightarrow> (vs2, Inr ())))"

text \<open>The body of \<open>ingest_documents\<close> from "Starting Document Ingestion Pipeline" on.\<close>

definition ingest_paths ::
  "('d, 'h) env \<Rightarrow> ('d, 'h) DoclingRAGSystem \<Rightarrow> path list \<Rightarrow>
     ('d, 'h) DoclingRAGSystem \<times> (exn + unit)" where
  "ingest_paths E self file_paths =
     (case process_documents E file_paths of
        Inl e \<Rightarrow> (self, Inl e)
      | Inr documents \<Rightarrow>
          (case chunk_documents (chunking_strategy self) documents of
             Inl e \<Rightarrow> (self, Inl e)
           | Inr chunks \<Rightarrow>
               (case store_chunks E (vector_store self) chunks of
                  (vs, r) \<Rightarrow> (self\<lparr>vector_store := vs\<rparr>, r))))"

text \<open>
  \<open>ingest_documents(file_paths=None)\<close>. Without paths the files are discovered; when the
  folder is missing or nothing is found the code prints a message and executes a bare
  \<open>return\<close>.
\<close>

definition ingest_documents ::
  "('d, 'h) env \<Rightarrow> ('d, 'h) DoclingRAGSystem \<Rightarrow> path list option \<Rightarrow>
     ('d, 'h) DoclingRAGSystem \<times> (exn + unit)" where
  "ingest_documents E self file_paths =
     (case file_paths of
        None \<Rightarrow>
          (if \<not> docs_exists E then (self, Inr ())
           else (let found = discover E supported_extensions []
                 in if found = [] then (self, Inr ())
                    else ingest_paths E self found))
      | Some given \<Rightarrow> ingest_paths E self given)"

definition initialize_rag ::
  "('d, 'h) env \<Rightarrow> ('d, 'h) DoclingRAGSystem \<Rightarrow> ('d, 'h) DoclingRAGSystem \<times> (exn + unit)" where
  "initialize_rag E self =
     (case rag_pipeline self of
        Some p \<Rightarrow> (self, Inr ())
      | None \<Rightarrow>
          (case RAGPipeline_init E (GROQ_API_KEY (config E)) (vector_store self)
                  (LLM_MODEL (config E)) (1 / 10) of
             (vs, Inl e) \<Rightarrow> (self\<lparr>vector_store := vs\<rparr>, Inl e)
           | (vs, Inr p) \<Rightarrow> (self\<lparr>vector_store := vs, rag_pipeline := Some p\<rparr>, Inr ())))"

text \<open>
  \<open>DoclingRAGSystem.query(question, verbose)\<close>: build the pipeline if there is none,
  then ask it. \<open>verbose\<close> only selects printing.
\<close>

definition system_query ::
  "('d, 'h) env \<Rightarrow> ('d, 'h) DoclingRAGSystem \<Rightarrow> string \<Rightarrow> bool \<Rightarrow>
     ('d, 'h) DoclingRAGSystem \<times> (exn + QueryResponse)" where
  "system_query E self q verbose =
     (case initialize_rag E self of
        (self1, Inl e) \<Rightarrow> (self1, Inl e)
      | (self1, Inr u) \<Rightarrow>
          (case rag_pipeline self1 of
             None \<Rightarrow> (self1, Inl (AttributeError ''NoneType object has no attribute query''))
           | Some p \<Rightarrow> (self1, query E (vector_store self1) p q)))"

section \<open>The HTTP query endpoint of api.py\<close>

text \<open>
  The request model: \<open>top_k: Optional[int] = 10\<close>. A request body may leave the field
  out (\<open>None\<close> below), or give it as \<open>null\<close> or a number.
\<close>

record QueryRequest =
  req_question :: string
  top_k :: "int option"

definition QueryRequest_init :: "string \<Rightarrow> int option option \<Rightarrow> QueryRequest" where
  "QueryRequest_init q supplied =
     \<lparr>req_question = q, top_k = (case supplied of None \<Rightarrow> Some 10 | Some v \<Rightarrow> v)\<rparr>"

datatype http_exn = HTTPException nat string

text \<open>The module's global \<open>rag_system\<close> is the state; \<open>get_rag_system\<close> fills it once.\<close>

definition get_rag_system ::
  "('d, 'h) env \<Rightarrow> ('d, 'h) DoclingRAGSystem option \<Rightarrow>
     ('d, 'h) DoclingRAGSystem option \<times> (exn + ('d, 'h) DoclingRAGSystem)" where
  "get_rag_system E rag_system =
     (case rag_system of
        Some rag \<Rightarrow> (rag_system, Inr rag)
      | None \<Rightarrow>
          (case DoclingRAGSystem_init E of
             Inl e \<Rightarrow> (None, Inl e)
           | Inr rag \<Rightarrow> (Some rag, Inr rag)))"

text \<open>
  \<open>query_documents(request)\<close>. An \<open>HTTPException\<close> raised inside is re-raised as it is;
  any other exception becomes status 500.
\<close>

definition query_documents ::
  "('d, 'h) env \<Rightarrow> ('d, 'h) DoclingRAGSystem option \<Rightarrow> QueryRequest \<Rightarrow>
     ('d, 'h) DoclingRAGSystem option \<times> (http_exn + QueryResponse)" where
  "query_documents E rag_system request =
     (case get_rag_system E rag_system of
        (g, Inl e) \<Rightarrow> (g, Inl (HTTPException 500 (''Error processing query: '' @ exn_str e)))
      | (g, Inr rag) \<Rightarrow>
          (if length (glob E ''*.*'') = 0
           then (g, Inl (HTTPException 400
                   ''No documents uploaded. Please upload documents first using /upload endpoint.''))
           else (case system_query E rag (req_question request) False of
                   (rag1, Inl e) \<Rightarrow>
                     (Some rag1,
                      Inl (HTTPException 500 (''Error processing query: '' @ exn_str e)))
                 | (rag1, Inr result) \<Rightarrow>
                     (Some rag1,
                      Inr \<lparr>question = question result,
                           answer = answer result,
                           sources = take 5 (sources result),
                           metrics = metrics result\<rparr>))))"

section \<open>Definitions used to state the properties\<close>

text \<open>
  The dictionary the sources loop appends for the pair \<open>r = (doc, score)\<close> at position
  \<open>i\<close>: the same expression as in \<open>add_sources\<close>, named so that the loop's result can
  be written as a \<open>map\<close>.
\<close>

definition make_source :: "nat \<Rightarrow> document \<times> real \<Rightarrow> source_info" where
  "make_source i ds = \<lparr>source_number = i,
            preview = (if length (page_content (fst ds)) > 300
                       then take 300 (page_content (fst ds)) @ ''...''
                       else page_content (fst ds)),
            source_metadata = metadata (fst ds),
            relevance_score = snd ds\<rparr>"


subsection \<open>A concrete environment\<close>

text \<open>
  One environment on which the functions can be evaluated. Docling's document is the list
  of its paragraphs and the chunker yields one chunk per paragraph; the converter fails
  on the file \<open>docs/corrupt.pdf\<close>; a Chroma store is the list of its documents, each with
  a relevance score, and a search returns the first \<open>k\<close> of them; the language model
  always gives the same answer.
\<close>

definition example_config :: Config where
  "example_config =
     \<lparr>GROQ_API_KEY = ''gsk-example'',
      EMBEDDING_MODEL = ''sentence-transformers/all-MiniLM-L6-v2'',
      LLM_MODEL = ''llama-3.3-70b-versatile'',
      VECTOR_DB_PATH = ''./vector_db'',
      COLLECTION_NAME = ''docling_rag'',
      CHUNK_SIZE = 512,
      CHUNK_OVERLAP = 128\<rparr>"

definition example_chunk :: "string \<Rightarrow> doc_chunk" where
  "example_chunk t =
     \<lparr>chunk_text = t,
      meta = \<lparr>meta_doc_items = Some (MList []),
              meta_headings = Some MNone,
              meta_origin = Some (Some [(''filename'', ''a.pdf'')])\<rparr>\<rparr>"

definition example_env :: "(string list, (document \<times> real) list) env" where
  "example_env =
     \<lparr>config = example_config,
      docs_exists = True,
      glob = (\<lambda>pattern. if pattern = ''*.pdf'' \<or> pattern = ''*.*''
                         then [''docs/a.pdf''] else []),
      stat_size = (\<lambda>file_path. Inr 2048),
      convert = (\<lambda>file_path. if file_path = ''docs/corrupt.pdf''
                              then Inl (ExternalError ''cannot convert docs/corrupt.pdf'')
                              else Inr [''alpha'', ''beta'']),
      HierarchicalChunker = (\<lambda>tokenizer max_tokens include_metadata doc.
                               Inr (map example_chunk doc)),
      filter_complex_metadata = (\<lambda>docs. map (\<lambda>d. d\<lparr>metadata := []\<rparr>) docs),
      Chroma = (\<lambda>directory model name. Inr []),
      Chroma_from_documents = (\<lambda>docs model directory name. Inr (map (\<lambda>d. (d, 1 / 2)) docs)),
      Chroma_add_documents = (\<lambda>h docs. Inr (h @ map (\<lambda>d. (d, 1 / 2)) docs)),
      Chroma_bool = (\<lambda>h. True),
      similarity_search_with_relevance_scores = (\<lambda>h q k. Inr (take k h)),
      retriever_invoke = (\<lambda>h k q. Inr (map fst (take k h))),
      llm_invoke = (\<lambda>model temp prompt. Inr ''The sky is blue.'')\<rparr>"

definition example_pipeline :: "(document \<times> real) list \<Rightarrow> (document \<times> real) list RAGPipeline" where
  "example_pipeline h =
     \<lparr>retriever = (h, 10), model_name = ''llama-3.3-70b-versatile'', temperature = 1 / 10\<rparr>"

definition example_store :: "(document \<times> real) list \<Rightarrow> (document \<times> real) list VectorStore" where
  "example_store h =
     \<lparr>embedding_model = ''sentence-transformers/all-MiniLM-L6-v2'',
      persist_directory = ''./vector_db'',
      collection_name = ''docling_rag'',
      vectorstore = Some h\<rparr>"

definition two_results :: "(document \<times> real) list" where
  "two_results =
     [(\<lparr>page_content = ''The sky is blue.'', metadata = []\<rparr>, 1 / 2),
      (\<lparr>page_content = replicate 301 (CHR ''x''), metadata = []\<rparr>, 1 / 4)]"

text \<open>
  A freshly constructed system (no pipeline, no open store), six ranked search results,
  and a system whose store holds them and whose pipeline is built.
\<close>

definition example_system ::
  "(string list, (document \<times> real) list) DoclingRAGSystem" where
  "example_system =
     \<lparr>chunking_strategy = ChunkingStrategy_init example_env 512 128,
      vector_store = VectorStore_init ''sentence-transformers/all-MiniLM-L6-v2''
                       ''./vector_db'' ''docling_rag'',
      rag_pipeline = None\<rparr>"

definition six_results :: "(document \<times> real) list" where
  "six_results =
     [(\<lparr>page_content = ''one'', metadata = []\<rparr>, 9 / 10),
      (\<lparr>page_content = ''two'', metadata = []\<rparr>, 8 / 10),
      (\<lparr>page_content = ''three'', metadata = []\<rparr>, 7 / 10),
      (\<lparr>page_content = ''four'', metadata = []\<rparr>, 6 / 10),
      (\<lparr>page_content = ''five'', metadata = []\<rparr>, 5 / 10),
      (\<lparr>page_content = ''six'', metadata = []\<rparr>, 4 / 10)]"

definition ready_system ::
  "(string list, (document \<times> real) list) DoclingRAGSystem" where
  "ready_system =
     \<lparr>chunking_strategy = ChunkingStrategy_init example_env 512 128,
      vector_store = example_store six_results,
      rag_pipeline = Some (example_pipeline six_results)\<rparr>"

section \<open>Lemmas about the loops\<close>

lemma foldl_add_sum_list: "foldl (+) a xs = a + sum_list (xs :: real list)"
  by (induction xs arbitrary: a) simp_all

lemma py_sum_sum_list: "py_sum xs = sum_list xs"
  by (simp add: py_sum_def foldl_add_sum_list)

lemma add_sources_step:
  "add_sources i (r # rest) response =
     add_sources (Suc i) rest (response\<lparr>sources := sources response @ [make_source i r]\<rparr>)"
  by (cases r) (simp add: make_source_def)

lemma add_sources_eq:
  "add_sources i rs response =
     response\<lparr>sources := sources response @
        map (\<lambda>(j, r). make_source j r) (List.enumerate i rs)\<rparr>"
proof (induction rs arbitrary: i response)
  case Nil
  then show ?case by simp
next
  case (Cons r rs)
  show ?case
    by (simp only: add_sources_step Cons.IH) simp
qed




lemma query_success:
  assumes "vectorstore vs = Some h"
    and "similarity_search_with_relevance_scores E h q 10 = Inr rs"
    and "rag_chain_invoke E p q = Inr a"
  shows "query E vs p q =
     Inr \<lparr>question = q, answer = a,
          sources = map (\<lambda>(j, r). make_source j r) (List.enumerate 1 rs),
          metrics = \<lparr>retrieved_chunks = length rs,
                     average_relevance =
                       (if rs = [] then 0 else sum_list (map snd rs) / real (length rs)),
                     answer_length = length a\<rparr>\<rparr>"
  using assms by (simp add: query_def add_sources_eq py_sum_sum_list)

lemma to_documents_eq:
  "to_documents chunks documents =
     documents @ map (\<lambda>c. \<lparr>page_content = cd_text c, metadata = cd_metadata c\<rparr>) chunks"
  by (induction chunks arbitrary: documents) simp_all

lemma discover_eq:
  "discover E exts file_paths = file_paths @ concat (map (\<lambda>ext. glob E (''*'' @ ext)) exts)"
  by (induction exts arbitrary: file_paths) simp_all

lemma process_documents_loop_fails:
  assumes "\<forall>f \<in> set before. \<exists>d. process_document E f = Inr d"
    and "process_document E bad = Inl e"
  shows "process_documents_loop E (before @ bad # rest) documents = Inl e"
  using assms
proof (induction before arbitrary: documents)
  case Nil
  then show ?case by simp
next
  case (Cons f fs)
  then obtain d where "process_document E f = Inr d" by auto
  with Cons show ?case by simp
qed

lemma query_sources_length:
  assumes "query E vs p q = Inr r"
  shows "length (sources r) = retrieved_chunks (metrics r)"
  using assms
  by (auto simp: query_def add_sources_eq Let_def split: option.splits sum.splits)

lemma system_query_sources_length:
  assumes "system_query E rag q verbose = (rag1, Inr result)"
  shows "length (sources result) = retrieved_chunks (metrics result)"
  using assms
  by (auto simp: system_query_def split: prod.splits sum.splits option.splits
      dest: query_sources_length)

lemma system_query_ready:
  assumes "rag_pipeline rag = Some p"
  shows "system_query E rag q verbose = (rag, query E (vector_store rag) p q)"
  using assms by (simp add: system_query_def initialize_rag_def)

text \<open>
  Two parameters are accepted and not used: the endpoint's result does not depend on the
  request's \<open>top_k\<close>, and the chunking strategy does not depend on \<open>chunk_overlap\<close>.
\<close>

lemma query_documents_top_k_ignored:
  "query_documents E g (request\<lparr>top_k := k\<rparr>) = query_documents E g request"
  by (simp add: query_documents_def split: prod.splits sum.splits)

lemma ChunkingStrategy_init_overlap_ignored:
  "ChunkingStrategy_init E chunk_size overlap = ChunkingStrategy_init E chunk_size overlap'"
  by (simp add: ChunkingStrategy_init_def)

lemma ready_system_query:
  "system_query example_env ready_system q False =
     (ready_system,
      Inr \<lparr>question = q, answer = ''The sky is blue.'',
           sources = map (\<lambda>(j, r). make_source j r) (List.enumerate 1 six_results),
           metrics = \<lparr>retrieved_chunks = 6,
                      average_relevance = sum_list (map snd six_results) / 6,
                      answer_length = 16\<rparr>\<rparr>)"
proof -
  have p: "rag_pipeline ready_system = Some (example_pipeline six_results)"
    by (simp add: ready_system_def)
  have a: "vectorstore (vector_store ready_system) = Some six_results"
    by (simp add: ready_system_def example_store_def)
  have b: "similarity_search_with_relevance_scores example_env six_results q 10
            = Inr six_results"
    by (simp add: example_env_def six_results_def)
  have c: "rag_chain_invoke example_env (example_pipeline six_results) q
            = Inr ''The sky is blue.''"
    by (simp add: rag_chain_invoke_def example_env_def example_pipeline_def)
  have l: "length six_results = 6" "six_results \<noteq> []"
    by (simp_all add: six_results_def)
  show ?thesis
    unfolding system_query_ready [OF p] query_success [OF a b c]
    using l by simp
qed

section \<open>The query pipeline\<close>



text \<open>
  Claim C7. In every query response each source's preview is the full chunk text when the
  text has at most 300 characters, and its first 300 characters followed by \<open>...\<close> when it
  is longer; the answer is the string the generation chain returned, whole. The sources
  are in rank order, numbered from 1, one per retrieved chunk.
\<close>

theorem preview_truncated_answer_whole:
  assumes "vectorstore vs = Some h"
    and "similarity_search_with_relevance_scores E h q 10 = Inr rs"
    and "rag_chain_invoke E p q = Inr a"
  shows "\<exists>r. query E vs p q = Inr r \<and>
           answer r = a \<and>
           length (sources r) = length rs \<and>
           (\<forall>i < length rs.
              source_number (sources r ! i) = i + 1 \<and>
              relevance_score (sources r ! i) = snd (rs ! i) \<and>
              preview (sources r ! i) =
                (if length (page_content (fst (rs ! i))) \<le> 300
                 then page_content (fst (rs ! i))
                 else take 300 (page_content (fst (rs ! i))) @ ''...''))"
  using query_success [OF assms] by (simp add: make_source_def nth_enumerate_eq)

theorem preview_truncated_answer_whole_witness:
  "\<exists>r. query example_env (example_store two_results) (example_pipeline two_results) ''sky?''
          = Inr r \<and>
       answer r = ''The sky is blue.'' \<and>
       length (sources r) = 2 \<and>
       preview (sources r ! 0) = ''The sky is blue.'' \<and>
       preview (sources r ! 1) = replicate 300 (CHR ''x'') @ ''...''"
proof -
  have a: "vectorstore (example_store two_results) = Some two_results"
    by (simp add: example_store_def)
  have b: "similarity_search_with_relevance_scores example_env two_results ''sky?'' 10
            = Inr two_results"
    by (simp add: example_env_def two_results_def)
  have c: "rag_chain_invoke example_env (example_pipeline two_results) ''sky?''
            = Inr ''The sky is blue.''"
    by (simp add: rag_chain_invoke_def example_env_def example_pipeline_def)
  from preview_truncated_answer_whole [OF a b c]
  obtain r where r: "query example_env (example_store two_results)
        (example_pipeline two_results) ''sky?'' = Inr r"
    and ans: "answer r = ''The sky is blue.''"
    and len: "length (sources r) = length two_results"
    and each: "\<forall>i < length two_results.
              source_number (sources r ! i) = i + 1 \<and>
              relevance_score (sources r ! i) = snd (two_results ! i) \<and>
              preview (sources r ! i) =
                (if length (page_content (fst (two_results ! i))) \<le> 300
                 then page_content (fst (two_results ! i))
                 else take 300 (page_content (fst (two_results ! i))) @ ''...'')"
    by blast
  have l2: "length two_results = 2" by (simp add: two_results_def)
  have p0: "preview (sources r ! 0) = ''The sky is blue.''"
    using each [rule_format, of 0] by (simp add: two_results_def)
  have p1: "preview (sources r ! 1) = replicate 300 (CHR ''x'') @ ''...''"
    using each [rule_format, of 1] by (simp add: two_results_def)
  show ?thesis
    using r ans len l2 p0 p1 by simp
qed



section \<open>The HTTP query endpoint\<close>

text \<open>
  Claim C10. A response of the HTTP query endpoint carries at most the first five sources
  of the pipeline's result, in rank order, while its metrics are the pipeline's own: the
  number \<open>retrieved_chunks\<close> counts every retrieved chunk and can exceed the number of
  sources returned. Whenever the system is available, the documents folder is not empty
  and the system's query returns \<open>result\<close>, the endpoint returns a response with
  \<open>sources = result.sources[:5]\<close> and \<open>metrics = result.metrics\<close>.
\<close>

theorem endpoint_returns_top_five_sources:
  assumes "get_rag_system E g = (g1, Inr rag)"
    and "glob E ''*.*'' \<noteq> []"
    and "system_query E rag (req_question request) False = (rag1, Inr result)"
  shows "\<exists>resp. query_documents E g request = (Some rag1, Inr resp) \<and>
           sources resp = take 5 (sources result) \<and>
           metrics resp = metrics result \<and>
           retrieved_chunks (metrics resp) = length (sources result) \<and>
           length (sources resp) = min 5 (retrieved_chunks (metrics resp))"
  using assms system_query_sources_length [OF assms(3)]
  by (simp add: query_documents_def min_def)

theorem endpoint_returns_top_five_sources_witness:
  "\<exists>resp. query_documents example_env (Some ready_system) (QueryRequest_init ''sky?'' None)
            = (Some ready_system, Inr resp) \<and>
          map source_number (sources resp) = [1, 2, 3, 4, 5] \<and>
          length (sources resp) = 5 \<and>
          retrieved_chunks (metrics resp) = 6"
proof -
  let ?result = "\<lparr>question = ''sky?'', answer = ''The sky is blue.'',
           sources = map (\<lambda>(j, r). make_source j r) (List.enumerate 1 six_results),
           metrics = \<lparr>retrieved_chunks = 6,
                      average_relevance = sum_list (map snd six_results) / 6,
                      answer_length = 16\<rparr>\<rparr>"
  have a: "get_rag_system example_env (Some ready_system) = (Some ready_system, Inr ready_system)"
    by (simp add: get_rag_system_def)
  have b: "glob example_env ''*.*'' \<noteq> []"
    by (simp add: example_env_def)
  have c: "system_query example_env ready_system
             (req_question (QueryRequest_init ''sky?'' None)) False
           = (ready_system, Inr ?result)"
    by (simp add: ready_system_query QueryRequest_init_def)
  from endpoint_returns_top_five_sources [OF a b c]
  obtain resp where r: "query_documents example_env (Some ready_system)
        (QueryRequest_init ''sky?'' None) = (Some ready_system, Inr resp)"
    and s: "sources resp = take 5 (sources ?result)"
    and m: "metrics resp = metrics ?result"
    by blast
  have "map source_number (sources resp) = [1, 2, 3, 4, 5]"
    unfolding s by (simp add: six_results_def make_source_def)
  moreover have "length (sources resp) = 5"
    unfolding s by (simp add: six_results_def)
  moreover have "retrieved_chunks (metrics resp) = 6"
    unfolding m by simp
  ultimately show ?thesis
    using r by simp
qed

text \<open>
  Claim C2. The query takes a top-k parameter with default 10, and the number of
  retrieved chunks is at most the \<open>k\<close> the caller supplied. The request model has the
  field with that default, but no function reads it: the endpoint passes only the
  question on, and the pipeline searches with the constant \<open>k = 10\<close>. Evaluated on a
  request with \<open>top_k = 3\<close> against a store of six chunks, the endpoint reports six
  retrieved chunks and returns five sources.
\<close>

theorem top_k_three_retrieves_six:
  "top_k (QueryRequest_init ''sky?'' None) = Some 10 \<and>
   top_k (QueryRequest_init ''sky?'' (Some (Some 3))) = Some 3 \<and>
   (\<exists>resp. query_documents example_env (Some ready_system)
              (QueryRequest_init ''sky?'' (Some (Some 3)))
            = (Some ready_system, Inr resp) \<and>
          retrieved_chunks (metrics resp) = 6 \<and>
          length (sources resp) = 5)"
proof -
  have g: "glob example_env ''*.*'' \<noteq> []"
    by (simp add: example_env_def)
  have "query_documents example_env (Some ready_system)
              (QueryRequest_init ''sky?'' (Some (Some 3)))
        = (Some ready_system,
           Inr \<lparr>question = ''sky?'', answer = ''The sky is blue.'',
                sources = take 5 (map (\<lambda>(j, r). make_source j r)
                                    (List.enumerate 1 six_results)),
                metrics = \<lparr>retrieved_chunks = 6,
                           average_relevance = sum_list (map snd six_results) / 6,
                           answer_length = 16\<rparr>\<rparr>)"
    using g
    by (simp add: query_documents_def get_rag_system_def ready_system_query
        QueryRequest_init_def)
  moreover have "length (take 5 (map (\<lambda>(j, r). make_source j r)
                                    (List.enumerate 1 six_results))) = 5"
    by (simp add: six_results_def)
  ultimately show ?thesis
    by (simp add: QueryRequest_init_def)
qed

section \<open>Chunking\<close>

text \<open>
  Claim C3. With \<open>overlap_tokens > 0\<close> every chunk after the first begins with the tail of
  the chunk before it. The constructor documents \<open>chunk_overlap\<close> as the number of
  overlapping tokens between chunks but never passes it to the chunker, so the chunks are
  those of \<open>HierarchicalChunker\<close> alone. Evaluated with \<open>chunk_overlap = 128\<close> on a document
  of the two paragraphs \<open>alpha\<close> and \<open>beta\<close>, chunked one paragraph per chunk, the result is
  the same as with \<open>chunk_overlap = 0\<close>: the chunks \<open>alpha\<close> and \<open>beta\<close>, the second not
  beginning with any part of the first.
\<close>

theorem overlap_not_applied:
  "chunk_document (ChunkingStrategy_init example_env 512 128) [''alpha'', ''beta'']
     = chunk_document (ChunkingStrategy_init example_env 512 0) [''alpha'', ''beta''] \<and>
   (\<exists>chunks. chunk_document (ChunkingStrategy_init example_env 512 128) [''alpha'', ''beta'']
               = Inr chunks \<and>
             map cd_text chunks = [''alpha'', ''beta''])"
  by (simp add: ChunkingStrategy_init_def chunk_document_def make_chunk_data_def
      example_env_def example_chunk_def)

text \<open>
  Claim C5, as the code has it. For a document with no extractable text, for which the
  chunker yields no chunk, \<open>chunk_document\<close> returns the empty list of chunks and raises
  nothing; so does \<open>chunk_documents\<close> on that document alone.
\<close>

theorem empty_document_gives_no_chunks:
  assumes "chunker self document = Inr []"
  shows "chunk_document self document = Inr [] \<and>
         chunk_documents self [document] = Inr []"
  using assms by (simp add: chunk_document_def chunk_documents_def)

theorem empty_document_gives_no_chunks_witness:
  "chunk_document (ChunkingStrategy_init example_env 512 128) [] = Inr [] \<and>
   chunk_documents (ChunkingStrategy_init example_env 512 128) [[]] = Inr []"
proof -
  have "chunker (ChunkingStrategy_init example_env 512 128) [] = Inr []"
    by (simp add: ChunkingStrategy_init_def example_env_def)
  then show ?thesis
    by (rule empty_document_gives_no_chunks)
qed

text \<open>
  Against claim C5 as stated (such a document makes the chunk operation fail with
  \<open>ChunkingError\<close>): the document with no paragraphs is chunked to the empty list.
\<close>

theorem no_chunking_error_counterexample:
  "chunker (chunking_strategy example_system) [] = Inr [] \<and>
   chunk_document (chunking_strategy example_system) [] = Inr []"
  by (simp add: example_system_def ChunkingStrategy_init_def example_env_def
      chunk_document_def)

section \<open>Ingestion\<close>

text \<open>
  Claim C4, as the code has it. In a batch, the first file that fails to parse aborts the
  batch: when every file before it parses and it raises \<open>e\<close>, \<open>process_documents\<close> raises
  \<open>e\<close> whatever files follow, and \<open>ingest_documents\<close> raises \<open>e\<close> and leaves the system as
  it was, with nothing chunked or stored.
\<close>

theorem parse_failure_aborts_batch:
  assumes "\<forall>f \<in> set before. \<exists>d. process_document E f = Inr d"
    and "process_document E bad = Inl e"
  shows "process_documents E (before @ bad # rest) = Inl e \<and>
         ingest_documents E self (Some (before @ bad # rest)) = (self, Inl e)"
  using process_documents_loop_fails [OF assms]
  by (simp add: process_documents_def ingest_documents_def ingest_paths_def)

theorem parse_failure_aborts_batch_witness:
  "process_documents example_env ([''docs/a.pdf''] @ ''docs/corrupt.pdf'' # [''docs/b.pdf''])
     = Inl (ExternalError ''cannot convert docs/corrupt.pdf'') \<and>
   ingest_documents example_env example_system
       (Some ([''docs/a.pdf''] @ ''docs/corrupt.pdf'' # [''docs/b.pdf'']))
     = (example_system, Inl (ExternalError ''cannot convert docs/corrupt.pdf''))"
proof -
  have a: "\<forall>f \<in> set [''docs/a.pdf'']. \<exists>d. process_document example_env f = Inr d"
    by (simp add: process_document_def example_env_def)
  have b: "process_document example_env ''docs/corrupt.pdf''
             = Inl (ExternalError ''cannot convert docs/corrupt.pdf'')"
    by (simp add: process_document_def example_env_def)
  show ?thesis
    by (rule parse_failure_aborts_batch [OF a b])
qed

text \<open>
  Against claim C4 as stated (the other files of the batch are still processed): the files
  \<open>docs/a.pdf\<close> and \<open>docs/b.pdf\<close> parse when given alone, and with \<open>docs/corrupt.pdf\<close>
  between them the batch returns no document at all.
\<close>

theorem batch_not_continued_counterexample:
  "process_documents example_env [''docs/a.pdf'', ''docs/b.pdf'']
     = Inr [[''alpha'', ''beta''], [''alpha'', ''beta'']] \<and>
   process_documents example_env [''docs/a.pdf'', ''docs/corrupt.pdf'', ''docs/b.pdf'']
     = Inl (ExternalError ''cannot convert docs/corrupt.pdf'') \<and>
   ingest_documents example_env example_system
       (Some [''docs/a.pdf'', ''docs/corrupt.pdf'', ''docs/b.pdf''])
     = (example_system, Inl (ExternalError ''cannot convert docs/corrupt.pdf''))"
  by (simp add: process_documents_def process_document_def example_env_def
      ingest_documents_def ingest_paths_def)

text \<open>
  Claim C6, as the code has it. When \<open>ingest_documents\<close> is called without file paths and
  the documents folder is missing or discovery over the supported extensions finds no
  file, it returns normally, raising nothing and leaving the system unchanged.
\<close>

theorem empty_discovery_returns_normally:
  assumes "\<not> docs_exists E \<or> (\<forall>ext \<in> set supported_extensions. glob E (''*'' @ ext) = [])"
  shows "ingest_documents E self None = (self, Inr ())"
proof (cases "docs_exists E")
  case False
  then show ?thesis by (simp add: ingest_documents_def)
next
  case True
  with assms have "\<forall>ext \<in> set supported_extensions. glob E (''*'' @ ext) = []" by simp
  then have "discover E supported_extensions [] = []"
    unfolding discover_eq by simp
  then show ?thesis by (simp add: ingest_documents_def)
qed

theorem empty_discovery_returns_normally_witness:
  "ingest_documents (example_env\<lparr>glob := \<lambda>pattern. []\<rparr>) example_system None
     = (example_system, Inr ())"
  by (rule empty_discovery_returns_normally) simp

text \<open>
  Against claim C6 as stated (ingest fails with \<open>NoDocumentsFoundError\<close>): with an existing
  folder in which no pattern matches, discovery finds nothing and the call returns.
\<close>

theorem no_documents_found_counterexample:
  "docs_exists (example_env\<lparr>glob := \<lambda>pattern. []\<rparr>) \<and>
   discover (example_env\<lparr>glob := \<lambda>pattern. []\<rparr>) supported_extensions [] = [] \<and>
   ingest_documents (example_env\<lparr>glob := \<lambda>pattern. []\<rparr>) example_system None
     = (example_system, Inr ())"
  by (simp add: ingest_documents_def discover_eq example_env_def)

section \<open>The vector store\<close>

text \<open>
  Claim C9, as the code has it. \<open>create_vectorstore\<close> on a store whose handle is already
  open performs the build: when \<open>Chroma.from_documents\<close> returns a store for the chunks'
  documents, that store replaces the handle and is returned.
\<close>

theorem create_on_open_handle_builds:
  assumes "vectorstore self = Some h"
    and "Chroma_from_documents E
           (filter_complex_metadata E
              (map (\<lambda>c. \<lparr>page_content = cd_text c, metadata = cd_metadata c\<rparr>) chunks))
           (embedding_model self) (persist_directory self) (collection_name self) = Inr h'"
  shows "create_vectorstore E self chunks = (self\<lparr>vectorstore := Some h'\<rparr>, Inr h')"
  using assms by (simp add: create_vectorstore_def to_documents_eq)

theorem create_on_open_handle_builds_witness:
  "create_vectorstore example_env (example_store two_results)
       [\<lparr>cd_text = ''new'', cd_metadata = []\<rparr>]
     = ((example_store two_results)
          \<lparr>vectorstore := Some [(\<lparr>page_content = ''new'', metadata = []\<rparr>, 1 / 2)]\<rparr>,
        Inr [(\<lparr>page_content = ''new'', metadata = []\<rparr>, 1 / 2)])"
proof -
  have a: "vectorstore (example_store two_results) = Some two_results"
    by (simp add: example_store_def)
  show ?thesis
    by (rule create_on_open_handle_builds [OF a]) (simp add: example_env_def)
qed

text \<open>
  Against claim C9 as stated (building on an open handle fails with
  \<open>IndexAlreadyExistsError\<close>): the build on an open store succeeds and replaces its
  handle; and in \<open>ingest_documents\<close>, when loading opens the store and adding then fails,
  the fallback builds on the handle that was just opened.
\<close>

theorem build_on_open_handle_counterexample:
  "vectorstore (example_store two_results) = Some two_results \<and>
   create_vectorstore example_env (example_store two_results)
       [\<lparr>cd_text = ''new'', cd_metadata = []\<rparr>]
     = (example_store [(\<lparr>page_content = ''new'', metadata = []\<rparr>, 1 / 2)],
        Inr [(\<lparr>page_content = ''new'', metadata = []\<rparr>, 1 / 2)]) \<and>
   store_chunks
       (example_env\<lparr>Chroma_add_documents := \<lambda>h docs. Inl (ExternalError ''add failed'')\<rparr>)
       (VectorStore_init ''sentence-transformers/all-MiniLM-L6-v2'' ''./vector_db''
          ''docling_rag'')
       [\<lparr>cd_text = ''new'', cd_metadata = []\<rparr>]
     = (example_store [(\<lparr>page_content = ''new'', metadata = []\<rparr>, 1 / 2)], Inr ())"
  by (simp add: create_vectorstore_def store_chunks_def load_vectorstore_def
      add_documents_def ensure_loaded_def example_store_def example_env_def
      VectorStore_init_def)

end
